theory Spec2Isabelle
  imports Complex_Main "HOL-Library.Sublist"
begin

section \<open>Data model\<close>

text \<open>
  The script \<^verbatim>\<open>webllm_model_analysis.py\<close> keeps its catalog in a dict literal
  \<^verbatim>\<open>webllm_models\<close>: model name to a dict of fields. A field dict is a record here.
  Python floats are read as reals: the code only compares them (with each other and with
  the exact constants 4.0, 6.0, 40, 50, 60) and tests them for zero, and on finite floats
  these agree with the same operations on their real values. NaN and the infinities are
  outside the model. \<^verbatim>\<open>None\<close> is \<open>None\<close>, a present float is \<open>Some x\<close>.
\<close>

record model_data =
  vram_mb :: real
  parameters :: string
  low_resource_compatible :: bool
  context_window :: int
  quantization :: string
  sentiment_f1_score :: "real option"
  instruction_following :: "real option"
  file_size_gb :: real

text \<open>
  A dict keeps insertion order and \<^verbatim>\<open>.items()\<close> and \<^verbatim>\<open>.values()\<close> iterate in it, so the
  catalog is the list of its items in that order.
\<close>

type_synonym catalog = "(string \<times> model_data) list"

text \<open>
  Python's truth value of an optional float, as in \<^verbatim>\<open>if data['sentiment_f1_score']\<close>:
  \<^verbatim>\<open>None\<close> is false, and so is the float \<^verbatim>\<open>0.0\<close>.
\<close>

definition truthy :: "real option \<Rightarrow> bool" where
  "truthy v = (case v of None \<Rightarrow> False | Some x \<Rightarrow> x \<noteq> 0)"

text \<open>
  The condition \<^verbatim>\<open>data['sentiment_f1_score'] and data['sentiment_f1_score'] > t\<close>
  (lines 375, 377, 379): the comparison is evaluated only when the left operand is truthy.
\<close>

definition and_greater :: "real option \<Rightarrow> real \<Rightarrow> bool" where
  "and_greater v t = (case v of None \<Rightarrow> False | Some x \<Rightarrow> x \<noteq> 0 \<and> x > t)"

section \<open>Feasibility scoring (\<^verbatim>\<open>create_deployment_feasibility_chart\<close>)\<close>

text \<open>
  Lines 365 to 383, the body of the loop over the catalog: \<^verbatim>\<open>score\<close> starts at 0 and four
  statements in sequence add to it.
\<close>

definition score_size :: "int \<Rightarrow> model_data \<Rightarrow> int" where
  "score_size score data =
     (if file_size_gb data < 4.0 then score + 2
      else if file_size_gb data < 6.0 then score + 1
      else score)"

definition score_low_resource :: "int \<Rightarrow> model_data \<Rightarrow> int" where
  "score_low_resource score data =
     (if low_resource_compatible data then score + 2 else score)"

definition score_sentiment :: "int \<Rightarrow> model_data \<Rightarrow> int" where
  "score_sentiment score data =
     (if and_greater (sentiment_f1_score data) 60 then score + 3
      else if and_greater (sentiment_f1_score data) 50 then score + 2
      else if and_greater (sentiment_f1_score data) 40 then score + 1
      else score)"

definition score_context :: "int \<Rightarrow> model_data \<Rightarrow> int" where
  "score_context score data =
     (if context_window data \<ge> 4096 then score + 1 else score)"

definition feasibility_score :: "model_data \<Rightarrow> int" where
  "feasibility_score data =
     score_context (score_sentiment (score_low_resource (score_size 0 data) data) data) data"

text \<open>
  Lines 388 to 395: the \<^verbatim>\<open>if\<close>/\<^verbatim>\<open>elif\<close> chain that picks the key of the \<^verbatim>\<open>categories\<close> dict.
  The dict has exactly four keys, fixed at line 351; they are a datatype, and
  \<open>category_key\<close> gives the key string of each.
\<close>

datatype category = Excellent | Good | Adequate | Not_Suitable

fun category_key :: "category \<Rightarrow> string" where
  "category_key Excellent = ''Excellent for Journaling''"
| "category_key Good = ''Good for Journaling''"
| "category_key Adequate = ''Adequate for Journaling''"
| "category_key Not_Suitable = ''Not Suitable''"

definition bucket :: "int \<Rightarrow> category" where
  "bucket score =
     (if score \<ge> 7 then Excellent
      else if score \<ge> 5 then Good
      else if score \<ge> 3 then Adequate
      else Not_Suitable)"

text \<open>
  \<^verbatim>\<open>s.split(sep)[0]\<close> for a non-empty separator: the part of \<open>s\<close> before the first
  occurrence of \<open>sep\<close>, all of \<open>s\<close> when there is none.
\<close>

fun split_first :: "string \<Rightarrow> string \<Rightarrow> string" where
  "split_first sep [] = []"
| "split_first sep (c # cs) =
     (if prefix sep (c # cs) then [] else c # split_first sep cs)"

text \<open>
  One iteration of the loop at line 358: the score, \<^verbatim>\<open>base_name\<close> (line 386) and the
  append to the list under the chosen key. The dict of four lists is a function from
  the key to its list.
\<close>

definition categorize_step ::
  "(category \<Rightarrow> string list) \<Rightarrow> string \<times> model_data \<Rightarrow> (category \<Rightarrow> string list)" where
  "categorize_step categories item =
     (let score = feasibility_score (snd item);
          base_name = split_first ''-Instruct'' (fst item);
          k = bucket score
      in categories (k := categories k @ [base_name]))"

definition feasibility_categories :: "catalog \<Rightarrow> (category \<Rightarrow> string list)" where
  "feasibility_categories models = foldl categorize_step (\<lambda>_. []) models"

section \<open>The embedded catalog (\<^verbatim>\<open>create_webllm_compatibility_data\<close>)\<close>

text \<open>The fourteen entries of the dict literal at lines 39 to 180, in source order.\<close>

definition llama_1b_q4f16 :: model_data where
  "llama_1b_q4f16 = \<lparr> vram_mb = 879.04, parameters = ''1.23B'',
     low_resource_compatible = True, context_window = 4096, quantization = ''q4f16_1'',
     sentiment_f1_score = None, instruction_following = Some 59.5, file_size_gb = 0.88 \<rparr>"

definition llama_1b_q4f32 :: model_data where
  "llama_1b_q4f32 = \<lparr> vram_mb = 1128.82, parameters = ''1.23B'',
     low_resource_compatible = True, context_window = 4096, quantization = ''q4f32_1'',
     sentiment_f1_score = None, instruction_following = Some 59.5, file_size_gb = 1.13 \<rparr>"

definition llama_3b_q4f16 :: model_data where
  "llama_3b_q4f16 = \<lparr> vram_mb = 2263.69, parameters = ''3.21B'',
     low_resource_compatible = True, context_window = 4096, quantization = ''q4f16_1'',
     sentiment_f1_score = None, instruction_following = Some 59.5, file_size_gb = 2.26 \<rparr>"

definition smollm2_135m :: model_data where
  "smollm2_135m = \<lparr> vram_mb = 719.38, parameters = ''135M'',
     low_resource_compatible = True, context_window = 4096, quantization = ''q0f32'',
     sentiment_f1_score = None, instruction_following = None, file_size_gb = 0.72 \<rparr>"

definition smollm2_360m :: model_data where
  "smollm2_360m = \<lparr> vram_mb = 579.61, parameters = ''360M'',
     low_resource_compatible = True, context_window = 4096, quantization = ''q4f32_1'',
     sentiment_f1_score = None, instruction_following = None, file_size_gb = 0.58 \<rparr>"

definition smollm2_1_7b :: model_data where
  "smollm2_1_7b = \<lparr> vram_mb = 2692.38, parameters = ''1.7B'',
     low_resource_compatible = True, context_window = 4096, quantization = ''q4f32_1'',
     sentiment_f1_score = None, instruction_following = None, file_size_gb = 2.69 \<rparr>"

definition phi_3_5_mini :: model_data where
  "phi_3_5_mini = \<lparr> vram_mb = 3672.07, parameters = ''3.8B'',
     low_resource_compatible = False, context_window = 4096, quantization = ''q4f16_1'',
     sentiment_f1_score = None, instruction_following = Some 61.4, file_size_gb = 3.67 \<rparr>"

definition phi_3_5_mini_1k :: model_data where
  "phi_3_5_mini_1k = \<lparr> vram_mb = 2520.07, parameters = ''3.8B'',
     low_resource_compatible = True, context_window = 1024, quantization = ''q4f16_1'',
     sentiment_f1_score = None, instruction_following = Some 61.4, file_size_gb = 2.52 \<rparr>"

definition qwen_0_5b :: model_data where
  "qwen_0_5b = \<lparr> vram_mb = 1060.20, parameters = ''0.5B'',
     low_resource_compatible = True, context_window = 4096, quantization = ''q4f32_1'',
     sentiment_f1_score = None, instruction_following = None, file_size_gb = 1.06 \<rparr>"

definition qwen_1_5b :: model_data where
  "qwen_1_5b = \<lparr> vram_mb = 1888.97, parameters = ''1.5B'',
     low_resource_compatible = True, context_window = 4096, quantization = ''q4f32_1'',
     sentiment_f1_score = Some 58.29, instruction_following = None, file_size_gb = 1.89 \<rparr>"

definition qwen_3b :: model_data where
  "qwen_3b = \<lparr> vram_mb = 2893.64, parameters = ''3B'',
     low_resource_compatible = True, context_window = 4096, quantization = ''q4f32_1'',
     sentiment_f1_score = None, instruction_following = None, file_size_gb = 2.89 \<rparr>"

definition gemma_2b :: model_data where
  "gemma_2b = \<lparr> vram_mb = 2508.75, parameters = ''2.6B'',
     low_resource_compatible = False, context_window = 4096, quantization = ''q4f32_1'',
     sentiment_f1_score = Some 62.62, instruction_following = None, file_size_gb = 2.51 \<rparr>"

definition gemma_2b_1k :: model_data where
  "gemma_2b_1k = \<lparr> vram_mb = 1884.75, parameters = ''2.6B'',
     low_resource_compatible = True, context_window = 1024, quantization = ''q4f32_1'',
     sentiment_f1_score = Some 62.62, instruction_following = None, file_size_gb = 1.88 \<rparr>"

definition tinyllama :: model_data where
  "tinyllama = \<lparr> vram_mb = 839.98, parameters = ''1.1B'',
     low_resource_compatible = True, context_window = 2048, quantization = ''q4f32_1'',
     sentiment_f1_score = Some 45.18, instruction_following = None, file_size_gb = 0.84 \<rparr>"

definition webllm_models :: catalog where
  "webllm_models =
     [(''Llama-3.2-1B-Instruct-q4f16_1'', llama_1b_q4f16),
      (''Llama-3.2-1B-Instruct-q4f32_1'', llama_1b_q4f32),
      (''Llama-3.2-3B-Instruct-q4f16_1'', llama_3b_q4f16),
      (''SmolLM2-135M-Instruct-q0f32'', smollm2_135m),
      (''SmolLM2-360M-Instruct-q4f32_1'', smollm2_360m),
      (''SmolLM2-1.7B-Instruct-q4f32_1'', smollm2_1_7b),
      (''Phi-3.5-mini-instruct-q4f16_1'', phi_3_5_mini),
      (''Phi-3.5-mini-instruct-q4f16_1-1k'', phi_3_5_mini_1k),
      (''Qwen2.5-0.5B-Instruct-q4f32_1'', qwen_0_5b),
      (''Qwen2.5-1.5B-Instruct-q4f32_1'', qwen_1_5b),
      (''Qwen2.5-3B-Instruct-q4f32_1'', qwen_3b),
      (''gemma-2-2b-it-q4f32_1'', gemma_2b),
      (''gemma-2-2b-it-q4f32_1-1k'', gemma_2b_1k),
      (''TinyLlama-1.1B-Chat-v1.0-q4f32_1'', tinyllama)]"

text \<open>
  \<^verbatim>\<open>create_deployment_feasibility_chart\<close> takes no argument: it categorizes the embedded
  catalog.
\<close>

definition create_deployment_feasibility_chart :: "category \<Rightarrow> string list" where
  "create_deployment_feasibility_chart = feasibility_categories webllm_models"

section \<open>Aggregate summary (\<^verbatim>\<open>generate_analysis_summary\<close>)\<close>

text \<open>
  The source has no \<^verbatim>\<open>raise\<close> and no \<^verbatim>\<open>try\<close>. The only exceptions its summary can meet are
  the \<^verbatim>\<open>ValueError\<close> of the built-in \<^verbatim>\<open>max\<close> and \<^verbatim>\<open>min\<close> on an empty list. The third
  constructor is the data error section 7 of the specification asks for; no path of the
  source produces it, and only \<open>spec_best_sentiment\<close> below does.
\<close>

datatype error =
    ValueError_max_empty
  | ValueError_min_empty
  | No_benchmark_field

text \<open>
  \<^verbatim>\<open>max(xs, key=k)\<close> and \<^verbatim>\<open>min(xs, key=k)\<close>: the first item is the candidate, and a later
  item replaces it only when its key is strictly greater (strictly smaller), so the
  first of several extremal items is returned.
\<close>

definition max_step :: "('a \<Rightarrow> real) \<Rightarrow> 'a \<Rightarrow> 'a \<Rightarrow> 'a" where
  "max_step key best item = (if key item > key best then item else best)"

definition min_step :: "('a \<Rightarrow> real) \<Rightarrow> 'a \<Rightarrow> 'a \<Rightarrow> 'a" where
  "min_step key best item = (if key item < key best then item else best)"

fun py_max :: "('a \<Rightarrow> real) \<Rightarrow> 'a list \<Rightarrow> error + 'a" where
  "py_max key [] = Inl ValueError_max_empty"
| "py_max key (x # xs) = Inr (foldl (max_step key) x xs)"

fun py_min :: "('a \<Rightarrow> real) \<Rightarrow> 'a list \<Rightarrow> error + 'a" where
  "py_min key [] = Inl ValueError_min_empty"
| "py_min key (x # xs) = Inr (foldl (min_step key) x xs)"

text \<open>
  Line 436: \<^verbatim>\<open>[(name, data['sentiment_f1_score']) for name, data in webllm_models.items()
  if data['sentiment_f1_score']]\<close>. The filter is the truth value of the field.
\<close>

fun sentiment_pairs :: "catalog \<Rightarrow> (string \<times> real) list" where
  "sentiment_pairs [] = []"
| "sentiment_pairs (item # rest) =
     (case sentiment_f1_score (snd item) of
        None \<Rightarrow> sentiment_pairs rest
      | Some v \<Rightarrow> if v \<noteq> 0 then (fst item, v) # sentiment_pairs rest
                  else sentiment_pairs rest)"

text \<open>Line 440: \<^verbatim>\<open>[(name, data['file_size_gb']) for name, data in webllm_models.items()]\<close>.\<close>

definition size_pairs :: "catalog \<Rightarrow> (string \<times> real) list" where
  "size_pairs models = map (\<lambda>item. (fst item, file_size_gb (snd item))) models"

text \<open>Lines 432 to 434: the three counts, each the length of a filtered list of values.\<close>

definition count_sentiment_data :: "catalog \<Rightarrow> nat" where
  "count_sentiment_data models =
     length (filter (\<lambda>m. truthy (sentiment_f1_score m)) (map snd models))"

definition count_under_4gb :: "catalog \<Rightarrow> nat" where
  "count_under_4gb models = length (filter (\<lambda>m. file_size_gb m < 4.0) (map snd models))"

definition count_low_resource :: "catalog \<Rightarrow> nat" where
  "count_low_resource models =
     length (filter (\<lambda>m. low_resource_compatible m) (map snd models))"

text \<open>
  The \<^verbatim>\<open>findings\<close> dict (lines 430 to 443). Its key \<^verbatim>\<open>'low_resource_compatible'\<close> is the field
  \<open>low_resource_count\<close>, since the catalog's field has that name already.
\<close>

record findings =
  total_models_analyzed :: nat
  models_with_sentiment_data :: nat
  models_under_4gb :: nat
  low_resource_count :: nat
  best_sentiment_model :: "string \<times> real"
  smallest_model :: "string \<times> real"

text \<open>
  The values of the dict literal are evaluated top to bottom, so \<^verbatim>\<open>max\<close> runs, and may
  raise, before \<^verbatim>\<open>min\<close>. An exception leaves the function: no findings are returned.
\<close>

definition analysis_findings :: "catalog \<Rightarrow> error + findings" where
  "analysis_findings models =
     (case py_max snd (sentiment_pairs models) of
        Inl e \<Rightarrow> Inl e
      | Inr best \<Rightarrow>
          (case py_min snd (size_pairs models) of
             Inl e \<Rightarrow> Inl e
           | Inr smallest \<Rightarrow>
               Inr \<lparr> total_models_analyzed = length models,
                     models_with_sentiment_data = count_sentiment_data models,
                     models_under_4gb = count_under_4gb models,
                     low_resource_count = count_low_resource models,
                     best_sentiment_model = best,
                     smallest_model = smallest \<rparr>))"

definition generate_analysis_summary :: "error + findings" where
  "generate_analysis_summary = analysis_findings webllm_models"

section \<open>The scoring rule as the specification words it\<close>

text \<open>
  Section 4.2 of the specification: four independent terms, the sentiment term decided
  by whether the field is present.
\<close>

definition spec_size_points :: "model_data \<Rightarrow> int" where
  "spec_size_points data =
     (if file_size_gb data < 4.0 then 2 else if file_size_gb data < 6.0 then 1 else 0)"

definition spec_low_resource_points :: "model_data \<Rightarrow> int" where
  "spec_low_resource_points data = (if low_resource_compatible data then 2 else 0)"

definition spec_sentiment_points :: "model_data \<Rightarrow> int" where
  "spec_sentiment_points data =
     (case sentiment_f1_score data of
        None \<Rightarrow> 0
      | Some f \<Rightarrow> if f > 60 then 3 else if f > 50 then 2 else if f > 40 then 1 else 0)"

definition spec_context_points :: "model_data \<Rightarrow> int" where
  "spec_context_points data = (if context_window data \<ge> 4096 then 1 else 0)"

definition spec_feasibility_score :: "model_data \<Rightarrow> int" where
  "spec_feasibility_score data =
     spec_size_points data + spec_low_resource_points data
       + spec_sentiment_points data + spec_context_points data"

section \<open>The aggregate summary as the specification words it\<close>

text \<open>
  Section 8 of the specification: the best-sentiment entry is found by a linear scan
  that compares only the fields that are present and keeps the maximum. Among equal
  values the scan keeps the one it met first.
\<close>

fun spec_scan_max :: "(string \<times> real) option \<Rightarrow> catalog \<Rightarrow> (string \<times> real) option" where
  "spec_scan_max best [] = best"
| "spec_scan_max best (item # rest) =
     (case sentiment_f1_score (snd item) of
        None \<Rightarrow> spec_scan_max best rest
      | Some v \<Rightarrow>
          (case best of
             None \<Rightarrow> spec_scan_max (Some (fst item, v)) rest
           | Some b \<Rightarrow> spec_scan_max (if v > snd b then Some (fst item, v) else best) rest))"

text \<open>
  Section 7 of the specification: when no record carries a sentiment score the
  computation reports the data error "no model has the required benchmark field".
\<close>

definition spec_best_sentiment :: "catalog \<Rightarrow> error + (string \<times> real)" where
  "spec_best_sentiment models =
     (case spec_scan_max None models of
        None \<Rightarrow> Inl No_benchmark_field
      | Some b \<Rightarrow> Inr b)"

text \<open>Section 4.3 of the specification: the count of records with a present score.\<close>

definition spec_count_sentiment_data :: "catalog \<Rightarrow> nat" where
  "spec_count_sentiment_data models =
     length (filter (\<lambda>m. sentiment_f1_score m \<noteq> None) (map snd models))"

section \<open>Properties of the scorer\<close>

lemma feasibility_score_sum:
  "feasibility_score data =
     score_size 0 data + score_low_resource 0 data + score_sentiment 0 data
       + score_context 0 data"
  by (simp add: feasibility_score_def score_size_def score_low_resource_def
      score_sentiment_def score_context_def)

lemma score_sentiment_spec: "score_sentiment 0 data = spec_sentiment_points data"
  by (cases "sentiment_f1_score data")
     (simp_all add: score_sentiment_def spec_sentiment_points_def and_greater_def)

text \<open>
  Claim C2. For every model record the scorer of the source returns the sum the
  specification describes: 2 for a file under 4.0 GB, else 1 under 6.0 GB; 2 when
  low-resource compatible; for a present F1 score 3 above 60, else 2 above 50, else 1
  above 40, and nothing when it is absent; 1 for a context window of at least 4096.
\<close>

theorem feasibility_score_matches_spec:
  "feasibility_score data = spec_feasibility_score data"
  unfolding feasibility_score_sum spec_feasibility_score_def score_sentiment_spec
  by (simp add: score_size_def score_low_resource_def score_context_def
      spec_size_points_def spec_low_resource_points_def spec_context_points_def)

text \<open>
  The two scored scenarios of section 8 of the specification are the embedded records
  \<open>tinyllama\<close> (0.84 GB, low-resource, F1 45.18, context 2048) and \<open>smollm2_135m\<close>
  (0.72 GB, low-resource, no F1, context 4096): both score 5 and fall in Good.
\<close>

lemma spec_scenarios:
  "feasibility_score tinyllama = 5 \<and> bucket (feasibility_score tinyllama) = Good
   \<and> feasibility_score smollm2_135m = 5 \<and> bucket (feasibility_score smollm2_135m) = Good"
  by (simp add: feasibility_score_sum score_size_def score_low_resource_def
      score_sentiment_def score_context_def and_greater_def bucket_def tinyllama_def
      smollm2_135m_def)

text \<open>
  Claim C5. For every model record the score lies in the interval from 0 to 8.
\<close>

theorem feasibility_score_range:
  "0 \<le> feasibility_score data \<and> feasibility_score data \<le> 8"
  unfolding feasibility_score_sum
  by (simp add: score_size_def score_low_resource_def score_sentiment_def
      score_context_def)

text \<open>
  Claim C3. The bucket is a total function of the score with inclusive lower bounds,
  tested from the highest down: Excellent exactly from 7 up, Good exactly on 5 and 6,
  Adequate exactly on 3 and 4, Not Suitable exactly below 3 (so on 0, 1 and 2); the
  boundary scores 7, 5 and 3 fall in the higher bucket.
\<close>

theorem bucket_boundaries:
  "(bucket s = Excellent \<longleftrightarrow> 7 \<le> s)
   \<and> (bucket s = Good \<longleftrightarrow> 5 \<le> s \<and> s < 7)
   \<and> (bucket s = Adequate \<longleftrightarrow> 3 \<le> s \<and> s < 5)
   \<and> (bucket s = Not_Suitable \<longleftrightarrow> s < 3)
   \<and> bucket 7 = Excellent \<and> bucket 5 = Good \<and> bucket 3 = Adequate
   \<and> bucket 0 = Not_Suitable \<and> bucket 1 = Not_Suitable \<and> bucket 2 = Not_Suitable"
  by (simp add: bucket_def)

lemma score_size_mono:
  "file_size_gb d' \<le> file_size_gb d \<Longrightarrow> score_size 0 d \<le> score_size 0 d'"
  by (simp add: score_size_def)

lemma score_sentiment_mono:
  assumes "sentiment_f1_score d = Some a" and "sentiment_f1_score d' = Some b" and "a \<le> b"
  shows "score_sentiment 0 d \<le> score_sentiment 0 d'"
  using assms by (auto simp: score_sentiment_def and_greater_def)

text \<open>
  Claim C4. The scorer is monotonic. With the other fields held fixed, the score does
  not decrease when \<open>file_size_gb\<close> is replaced by a smaller value, when
  \<open>low_resource_compatible\<close> goes from false to true, or when a present
  \<open>sentiment_f1_score\<close> is replaced by a larger one.
\<close>

theorem feasibility_score_monotone:
  "(x \<le> file_size_gb d \<longrightarrow>
      feasibility_score d \<le> feasibility_score (d\<lparr>file_size_gb := x\<rparr>))
   \<and> feasibility_score (d\<lparr>low_resource_compatible := False\<rparr>)
       \<le> feasibility_score (d\<lparr>low_resource_compatible := True\<rparr>)
   \<and> (sentiment_f1_score d = Some a \<and> a \<le> b \<longrightarrow>
      feasibility_score d \<le> feasibility_score (d\<lparr>sentiment_f1_score := Some b\<rparr>))"
proof (intro conjI impI)
  assume "x \<le> file_size_gb d"
  then have "score_size 0 d \<le> score_size 0 (d\<lparr>file_size_gb := x\<rparr>)"
    by (intro score_size_mono) simp
  then show "feasibility_score d \<le> feasibility_score (d\<lparr>file_size_gb := x\<rparr>)"
    unfolding feasibility_score_sum
    by (simp add: score_low_resource_def score_sentiment_def score_context_def)
next
  show "feasibility_score (d\<lparr>low_resource_compatible := False\<rparr>)
          \<le> feasibility_score (d\<lparr>low_resource_compatible := True\<rparr>)"
    unfolding feasibility_score_sum
    by (simp add: score_size_def score_low_resource_def score_sentiment_def
        score_context_def)
next
  assume "sentiment_f1_score d = Some a \<and> a \<le> b"
  then have "score_sentiment 0 d \<le> score_sentiment 0 (d\<lparr>sentiment_f1_score := Some b\<rparr>)"
    by (intro score_sentiment_mono[of d a _ b]) simp_all
  then show "feasibility_score d \<le> feasibility_score (d\<lparr>sentiment_f1_score := Some b\<rparr>)"
    unfolding feasibility_score_sum
    by (simp add: score_size_def score_low_resource_def score_context_def)
qed

theorem feasibility_score_monotone_witness:
  "(0.5 \<le> file_size_gb tinyllama
      \<and> feasibility_score tinyllama \<le> feasibility_score (tinyllama\<lparr>file_size_gb := 0.5\<rparr>))
   \<and> feasibility_score (tinyllama\<lparr>low_resource_compatible := False\<rparr>)
       \<le> feasibility_score (tinyllama\<lparr>low_resource_compatible := True\<rparr>)
   \<and> (sentiment_f1_score tinyllama = Some 45.18 \<and> (45.18::real) \<le> 61
      \<and> feasibility_score tinyllama
          \<le> feasibility_score (tinyllama\<lparr>sentiment_f1_score := Some 61\<rparr>))"
  using feasibility_score_monotone [of "0.5" tinyllama "45.18" 61]
  by (simp add: tinyllama_def)

section \<open>Properties of the categories and of the summary\<close>

lemma sentiment_pairs_append:
  "sentiment_pairs (xs @ ys) = sentiment_pairs xs @ sentiment_pairs ys"
  by (induction xs) (auto split: option.splits)

lemma sentiment_pairs_empty:
  "\<forall>item \<in> set models. \<not> truthy (sentiment_f1_score (snd item)) \<Longrightarrow> sentiment_pairs models = []"
  by (induction models) (auto simp: truthy_def split: option.splits)

lemma foldl_max_keep:
  "\<forall>z \<in> set zs. key z \<le> key b \<Longrightarrow> foldl (max_step key) b zs = b"
  by (induction zs) (auto simp: max_step_def)

lemma foldl_max_below:
  "key a < key b \<Longrightarrow> \<forall>y \<in> set ys. key y < key b \<Longrightarrow> key (foldl (max_step key) a ys) < key b"
  by (induction ys arbitrary: a) (auto simp: max_step_def)

lemma py_max_first:
  assumes "\<forall>y \<in> set ys. key y < key b" and "\<forall>z \<in> set zs. key z \<le> key b"
  shows "py_max key (ys @ b # zs) = Inr b"
proof (cases ys)
  case Nil
  then show ?thesis using assms(2) by (simp add: foldl_max_keep)
next
  case (Cons a as)
  with assms(1) have "key (foldl (max_step key) a as) < key b"
    by (intro foldl_max_below) auto
  then have "max_step key (foldl (max_step key) a as) b = b"
    by (simp add: max_step_def)
  with Cons assms(2) show ?thesis by (simp add: foldl_max_keep)
qed

lemma py_min_nonempty: "xs \<noteq> [] \<Longrightarrow> \<exists>m. py_min key xs = Inr m"
  by (cases xs) auto

lemma categorize_fold:
  "foldl categorize_step cats models k =
     cats k @ map (\<lambda>item. split_first ''-Instruct'' (fst item))
                (filter (\<lambda>item. bucket (feasibility_score (snd item)) = k) models)"
  by (induction models arbitrary: cats) (auto simp: categorize_step_def Let_def)

lemmas catalog_defs = webllm_models_def llama_1b_q4f16_def llama_1b_q4f32_def
  llama_3b_q4f16_def smollm2_135m_def smollm2_360m_def smollm2_1_7b_def phi_3_5_mini_def
  phi_3_5_mini_1k_def qwen_0_5b_def qwen_1_5b_def qwen_3b_def gemma_2b_def gemma_2b_1k_def
  tinyllama_def

lemma embedded_catalog_scores:
  "\<forall>item \<in> set webllm_models.
      file_size_gb (snd item) < 4.0
      \<and> (low_resource_compatible (snd item) \<or> context_window (snd item) \<ge> 4096)
      \<and> 3 \<le> feasibility_score (snd item)"
  by (simp add: catalog_defs feasibility_score_sum score_size_def score_low_resource_def
      score_sentiment_def score_context_def and_greater_def)

lemma sentiment_pairs_mem:
  "p \<in> set (sentiment_pairs models) \<Longrightarrow>
     \<exists>item \<in> set models. fst item = fst p \<and> sentiment_f1_score (snd item) = Some (snd p)"
  by (induction models) (auto split: option.splits if_splits)

lemma foldl_max_in: "foldl (max_step key) x xs \<in> set (x # xs)"
  by (induction xs arbitrary: x) (auto simp: max_step_def)

lemma foldl_max_ge: "y \<in> set (x # xs) \<Longrightarrow> key y \<le> key (foldl (max_step key) x xs)"
proof (induction xs arbitrary: x y)
  case Nil
  then show ?case by simp
next
  case (Cons a xs)
  have top: "key (max_step key x a) \<le> key (foldl (max_step key) (max_step key x a) xs)"
    by (rule Cons.IH) simp
  have "key x \<le> key (max_step key x a)" "key a \<le> key (max_step key x a)"
    by (simp_all add: max_step_def)
  with top have "key x \<le> key (foldl (max_step key) (max_step key x a) xs)"
    and "key a \<le> key (foldl (max_step key) (max_step key x a) xs)"
    by linarith+
  moreover have "y \<in> set xs \<Longrightarrow> key y \<le> key (foldl (max_step key) (max_step key x a) xs)"
    by (rule Cons.IH) simp
  ultimately show ?case using Cons.prems by auto
qed

lemma foldl_min_in: "foldl (min_step key) x xs \<in> set (x # xs)"
  by (induction xs arbitrary: x) (auto simp: min_step_def)

lemma foldl_min_le: "y \<in> set (x # xs) \<Longrightarrow> key (foldl (min_step key) x xs) \<le> key y"
proof (induction xs arbitrary: x y)
  case Nil
  then show ?case by simp
next
  case (Cons a xs)
  have top: "key (foldl (min_step key) (min_step key x a) xs) \<le> key (min_step key x a)"
    by (rule Cons.IH) simp
  have "key (min_step key x a) \<le> key x" "key (min_step key x a) \<le> key a"
    by (simp_all add: min_step_def)
  with top have "key (foldl (min_step key) (min_step key x a) xs) \<le> key x"
    and "key (foldl (min_step key) (min_step key x a) xs) \<le> key a"
    by linarith+
  moreover have "y \<in> set xs \<Longrightarrow> key (foldl (min_step key) (min_step key x a) xs) \<le> key y"
    by (rule Cons.IH) simp
  ultimately show ?case using Cons.prems by auto
qed

lemma best_sentiment_first:
  assumes d: "sentiment_f1_score d = Some v" "v \<noteq> 0"
    and pre: "\<forall>item \<in> set pre. \<forall>w. sentiment_f1_score (snd item) = Some w \<longrightarrow> w < v"
    and post: "\<forall>item \<in> set post. \<forall>w. sentiment_f1_score (snd item) = Some w \<longrightarrow> w \<le> v"
  shows "\<exists>f. analysis_findings (pre @ (n, d) # post) = Inr f \<and> best_sentiment_model f = (n, v)"
proof -
  have split: "sentiment_pairs (pre @ (n, d) # post)
                 = sentiment_pairs pre @ (n, v) # sentiment_pairs post"
    using d by (simp add: sentiment_pairs_append)
  have "\<forall>p \<in> set (sentiment_pairs pre). snd p < snd (n, v)"
    using pre by (auto dest!: sentiment_pairs_mem)
  moreover have "\<forall>p \<in> set (sentiment_pairs post). snd p \<le> snd (n, v)"
    using post by (auto dest!: sentiment_pairs_mem)
  ultimately have best: "py_max snd (sentiment_pairs (pre @ (n, d) # post)) = Inr (n, v)"
    unfolding split by (rule py_max_first)
  obtain m where "py_min snd (size_pairs (pre @ (n, d) # post)) = Inr m"
    using py_min_nonempty[of "size_pairs (pre @ (n, d) # post)" snd]
    by (auto simp: size_pairs_def)
  with best show ?thesis by (simp add: analysis_findings_def)
qed

lemma spec_scan_max_some:
  assumes "\<forall>item \<in> set models. sentiment_f1_score (snd item) \<noteq> Some 0"
  shows "spec_scan_max (Some b) models = Some (foldl (max_step snd) b (sentiment_pairs models))"
  using assms
proof (induction models arbitrary: b)
  case Nil
  then show ?case by simp
next
  case (Cons item models)
  then show ?case
    by (cases "sentiment_f1_score (snd item)") (auto simp: max_step_def)
qed

lemma spec_scan_max_none:
  assumes "\<forall>item \<in> set models. sentiment_f1_score (snd item) \<noteq> Some 0"
  shows "spec_scan_max None models =
           (case py_max snd (sentiment_pairs models) of Inl e \<Rightarrow> None | Inr b \<Rightarrow> Some b)"
  using assms
proof (induction models)
  case Nil
  then show ?case by simp
next
  case (Cons item models)
  then show ?case
    by (cases "sentiment_f1_score (snd item)") (auto simp: spec_scan_max_some)
qed

lemma count_sentiment_present:
  assumes "\<forall>item \<in> set models. sentiment_f1_score (snd item) \<noteq> Some 0"
  shows "count_sentiment_data models = spec_count_sentiment_data models"
proof -
  have "filter (\<lambda>m. truthy (sentiment_f1_score m)) (map snd models)
          = filter (\<lambda>m. sentiment_f1_score m \<noteq> None) (map snd models)"
    using assms by (intro filter_cong) (auto simp: truthy_def split: option.splits)
  then show ?thesis by (simp add: count_sentiment_data_def spec_count_sentiment_data_def)
qed

lemma sentiment_pairs_nonempty:
  assumes "item \<in> set models" "sentiment_f1_score (snd item) = Some v" "v \<noteq> 0"
  shows "sentiment_pairs models \<noteq> []"
  using assms by (induction models) (auto split: option.splits)

lemma sentiment_pairs_intro:
  assumes "item \<in> set models" "sentiment_f1_score (snd item) = Some v" "v \<noteq> 0"
  shows "(fst item, v) \<in> set (sentiment_pairs models)"
  using assms by (induction models) (auto split: option.splits)

lemma py_max_cases:
  "xs \<noteq> [] \<Longrightarrow> \<exists>b. py_max key xs = Inr b \<and> b \<in> set xs \<and> (\<forall>y \<in> set xs. key y \<le> key b)"
  using foldl_max_in[of key] foldl_max_ge[of _ _ _ key] by (cases xs) auto

lemma py_min_cases:
  "xs \<noteq> [] \<Longrightarrow> \<exists>m. py_min key xs = Inr m \<and> m \<in> set xs \<and> (\<forall>y \<in> set xs. key m \<le> key y)"
  using foldl_min_in[of key] foldl_min_le[of _ _ _ key] by (cases xs) auto

lemma embedded_findings:
  "generate_analysis_summary =
     Inr \<lparr> total_models_analyzed = 14, models_with_sentiment_data = 4,
           models_under_4gb = 14, low_resource_count = 12,
           best_sentiment_model = (''gemma-2-2b-it-q4f32_1'', 62.62),
           smallest_model = (''SmolLM2-360M-Instruct-q4f32_1'', 0.58) \<rparr>"
  by (simp add: generate_analysis_summary_def analysis_findings_def catalog_defs
      size_pairs_def max_step_def min_step_def count_sentiment_data_def
      count_under_4gb_def count_low_resource_def truthy_def)

text \<open>
  Claim C10. Every record of the embedded catalog has a file under 4.0 GB and is
  low-resource compatible or has a context window of at least 4096, so it scores at
  least 3, and the list under \<^verbatim>\<open>'Not Suitable'\<close> is empty when the embedded catalog has
  been categorized.
\<close>

theorem embedded_catalog_suitable:
  "(\<forall>item \<in> set webllm_models.
      file_size_gb (snd item) < 4.0
      \<and> (low_resource_compatible (snd item) \<or> context_window (snd item) \<ge> 4096)
      \<and> 3 \<le> feasibility_score (snd item))
   \<and> create_deployment_feasibility_chart Not_Suitable = []"
proof
  show a: "\<forall>item \<in> set webllm_models.
      file_size_gb (snd item) < 4.0
      \<and> (low_resource_compatible (snd item) \<or> context_window (snd item) \<ge> 4096)
      \<and> 3 \<le> feasibility_score (snd item)" by (rule embedded_catalog_scores)
  have "\<forall>item \<in> set webllm_models. bucket (feasibility_score (snd item)) \<noteq> Not_Suitable"
    using a by (auto simp: bucket_def)
  then have "filter (\<lambda>item. bucket (feasibility_score (snd item)) = Not_Suitable) webllm_models = []"
    by (simp add: filter_empty_conv)
  then show "create_deployment_feasibility_chart Not_Suitable = []"
    by (simp add: create_deployment_feasibility_chart_def feasibility_categories_def categorize_fold)
qed

theorem embedded_catalog_suitable_witness:
  "file_size_gb phi_3_5_mini < 4.0
      \<and> (low_resource_compatible phi_3_5_mini \<or> context_window phi_3_5_mini \<ge> 4096)
      \<and> 3 \<le> feasibility_score phi_3_5_mini"
  using embedded_catalog_suitable [THEN conjunct1, THEN bspec, of "(''Phi-3.5-mini-instruct-q4f16_1'', phi_3_5_mini)"]
  by (simp add: webllm_models_def)

text \<open>
  Claim C1, as amended. When no record of the catalog has a present
  \<open>sentiment_f1_score\<close>, the summary raises the \<^verbatim>\<open>ValueError\<close> of the built-in \<^verbatim>\<open>max\<close> on
  an empty list, and returns no findings. The source does not turn it into a data error.
\<close>

theorem no_sentiment_value_error:
  assumes "list_all (\<lambda>item. sentiment_f1_score (snd item) = None) models"
  shows "analysis_findings models = Inl ValueError_max_empty"
proof -
  from assms have "sentiment_pairs models = []"
    by (intro sentiment_pairs_empty) (simp add: truthy_def list_all_iff)
  then show ?thesis by (simp add: analysis_findings_def)
qed

theorem no_sentiment_value_error_witness:
  "list_all (\<lambda>item. sentiment_f1_score (snd item) = None)
     [(''SmolLM2-135M-Instruct-q0f32'', smollm2_135m)]
   \<and> analysis_findings [(''SmolLM2-135M-Instruct-q0f32'', smollm2_135m)] = Inl ValueError_max_empty"
  using no_sentiment_value_error [of "[(''SmolLM2-135M-Instruct-q0f32'', smollm2_135m)]"]
  by (simp add: smollm2_135m_def)

text \<open>
  Claim C1 as stated fails: on a catalog whose only record has no sentiment score the
  specification asks for the data error, and the source raises the built-in
  \<^verbatim>\<open>ValueError\<close> instead.
\<close>

theorem no_sentiment_not_data_error:
  "sentiment_f1_score smollm2_135m = None
   \<and> spec_best_sentiment [(''SmolLM2-135M-Instruct-q0f32'', smollm2_135m)] = Inl No_benchmark_field
   \<and> analysis_findings [(''SmolLM2-135M-Instruct-q0f32'', smollm2_135m)] = Inl ValueError_max_empty
   \<and> analysis_findings [(''SmolLM2-135M-Instruct-q0f32'', smollm2_135m)] \<noteq> Inl No_benchmark_field"
  by (simp add: smollm2_135m_def spec_best_sentiment_def analysis_findings_def)

lemma score_sentiment_zero:
  "sentiment_f1_score d = Some 0 \<Longrightarrow> score_sentiment s d = s"
  by (simp add: score_sentiment_def and_greater_def)

lemma score_sentiment_none:
  "sentiment_f1_score d = None \<Longrightarrow> score_sentiment s d = s"
  by (simp add: score_sentiment_def and_greater_def)

text \<open>
  Claim C8. For a record whose \<open>sentiment_f1_score\<close> is present and equal to 0.0 the
  sentiment step of the scorer adds nothing, the score is the one of the same record
  with the field absent, the record is not counted among the models with sentiment
  data, and the whole result of the summary is the one for the catalog with the field
  absent in that record.
\<close>

theorem zero_score_as_absent:
  assumes "sentiment_f1_score d = Some 0"
  shows "score_sentiment s d = s
     \<and> feasibility_score d = feasibility_score (d\<lparr>sentiment_f1_score := None\<rparr>)
     \<and> count_sentiment_data (pre @ (n, d) # post)
         = count_sentiment_data pre + count_sentiment_data post
     \<and> analysis_findings (pre @ (n, d) # post)
         = analysis_findings (pre @ (n, d\<lparr>sentiment_f1_score := None\<rparr>) # post)"
proof (intro conjI)
  show "score_sentiment s d = s" using assms by (rule score_sentiment_zero)
  show "feasibility_score d = feasibility_score (d\<lparr>sentiment_f1_score := None\<rparr>)"
    using assms unfolding feasibility_score_sum
    by (simp add: score_sentiment_zero score_sentiment_none score_size_def
        score_low_resource_def score_context_def)
  show "count_sentiment_data (pre @ (n, d) # post)
         = count_sentiment_data pre + count_sentiment_data post"
    using assms by (simp add: count_sentiment_data_def truthy_def)
  have len: "length (pre @ (n, d) # post)
          = length (pre @ (n, d\<lparr>sentiment_f1_score := None\<rparr>) # post)"
    by simp
  have p: "sentiment_pairs (pre @ (n, d) # post)
          = sentiment_pairs (pre @ (n, d\<lparr>sentiment_f1_score := None\<rparr>) # post)"
    using assms by (simp add: sentiment_pairs_append)
  have q: "size_pairs (pre @ (n, d) # post)
          = size_pairs (pre @ (n, d\<lparr>sentiment_f1_score := None\<rparr>) # post)"
    by (simp add: size_pairs_def)
  have c1: "count_sentiment_data (pre @ (n, d) # post)
          = count_sentiment_data (pre @ (n, d\<lparr>sentiment_f1_score := None\<rparr>) # post)"
    using assms by (simp add: count_sentiment_data_def truthy_def)
  have c2: "count_under_4gb (pre @ (n, d) # post)
          = count_under_4gb (pre @ (n, d\<lparr>sentiment_f1_score := None\<rparr>) # post)"
    by (simp add: count_under_4gb_def)
  have c3: "count_low_resource (pre @ (n, d) # post)
          = count_low_resource (pre @ (n, d\<lparr>sentiment_f1_score := None\<rparr>) # post)"
    by (simp add: count_low_resource_def)
  show "analysis_findings (pre @ (n, d) # post)
         = analysis_findings (pre @ (n, d\<lparr>sentiment_f1_score := None\<rparr>) # post)"
    unfolding analysis_findings_def p q c1 c2 c3 len by (rule refl)
qed

theorem zero_score_as_absent_witness:
  "sentiment_f1_score (tinyllama\<lparr>sentiment_f1_score := Some 0\<rparr>) = Some 0
   \<and> score_sentiment 0 (tinyllama\<lparr>sentiment_f1_score := Some 0\<rparr>) = 0
   \<and> feasibility_score (tinyllama\<lparr>sentiment_f1_score := Some 0\<rparr>) = 4
   \<and> feasibility_score (tinyllama\<lparr>sentiment_f1_score := None\<rparr>) = 4
   \<and> count_sentiment_data
        [(''Qwen2.5-1.5B-Instruct-q4f32_1'', qwen_1_5b),
         (''TinyLlama-1.1B-Chat-v1.0-q4f32_1'', tinyllama\<lparr>sentiment_f1_score := Some 0\<rparr>)] = 1"
  using zero_score_as_absent [of "tinyllama\<lparr>sentiment_f1_score := Some 0\<rparr>" 0
      "[(''Qwen2.5-1.5B-Instruct-q4f32_1'', qwen_1_5b)]" "''TinyLlama-1.1B-Chat-v1.0-q4f32_1''" "[]"]
  by (simp add: tinyllama_def qwen_1_5b_def feasibility_score_sum score_size_def
      score_low_resource_def score_sentiment_def score_context_def and_greater_def
      count_sentiment_data_def truthy_def)

text \<open>
  Away from the score 0.0 the summary and the scan of the specification agree. For every
  catalog in which at least one record has a present \<open>sentiment_f1_score\<close> and no present
  score is 0.0, the summary returns findings whose best-sentiment entry is the pair the
  linear scan over the present fields keeps: the name and score of a record, with no
  present score above it. The counts are the number of records with a present score,
  with a file under 4.0 GB, and that are low-resource compatible, and the smallest-model
  entry is the name and size of a record with no file size below it.
\<close>

lemma summary_matches_scan:
  assumes present: "list_ex (\<lambda>item. sentiment_f1_score (snd item) \<noteq> None) models"
      and nonzero: "list_all (\<lambda>item. sentiment_f1_score (snd item) \<noteq> Some 0) models"
  shows "\<exists>f. analysis_findings models = Inr f
        \<and> spec_scan_max None models = Some (best_sentiment_model f)
        \<and> list_ex (\<lambda>item. fst item = fst (best_sentiment_model f)
              \<and> sentiment_f1_score (snd item) = Some (snd (best_sentiment_model f))) models
        \<and> list_all (\<lambda>item. case sentiment_f1_score (snd item) of
                None \<Rightarrow> True | Some w \<Rightarrow> w \<le> snd (best_sentiment_model f)) models
        \<and> models_with_sentiment_data f = spec_count_sentiment_data models
        \<and> models_under_4gb f = length (filter (\<lambda>item. file_size_gb (snd item) < 4.0) models)
        \<and> low_resource_count f = length (filter (\<lambda>item. low_resource_compatible (snd item)) models)
        \<and> list_ex (\<lambda>item. smallest_model f = (fst item, file_size_gb (snd item))) models
        \<and> list_all (\<lambda>item. snd (smallest_model f) \<le> file_size_gb (snd item)) models"
proof -
  have nz: "\<forall>item \<in> set models. sentiment_f1_score (snd item) \<noteq> Some 0"
    using nonzero by (simp add: list_all_iff)
  from present obtain item v where item: "item \<in> set models" "sentiment_f1_score (snd item) = Some v"
    by (auto simp: list_ex_iff)
  with nz have "v \<noteq> 0" by auto
  with item have "sentiment_pairs models \<noteq> []" by (rule sentiment_pairs_nonempty)
  then obtain b where b: "py_max snd (sentiment_pairs models) = Inr b"
      "b \<in> set (sentiment_pairs models)" "\<forall>y \<in> set (sentiment_pairs models). snd y \<le> snd b"
    using py_max_cases by blast
  from item have "size_pairs models \<noteq> []" by (auto simp: size_pairs_def)
  then obtain m where m: "py_min snd (size_pairs models) = Inr m"
      "m \<in> set (size_pairs models)" "\<forall>y \<in> set (size_pairs models). snd m \<le> snd y"
    using py_min_cases by blast
  define f where "f = \<lparr> total_models_analyzed = length models,
                     models_with_sentiment_data = count_sentiment_data models,
                     models_under_4gb = count_under_4gb models,
                     low_resource_count = count_low_resource models,
                     best_sentiment_model = b,
                     smallest_model = m \<rparr>"
  have ret: "analysis_findings models = Inr f"
    using b(1) m(1) by (simp add: analysis_findings_def f_def)
  have scan: "spec_scan_max None models = Some (best_sentiment_model f)"
    using b(1) by (simp add: spec_scan_max_none[OF nz] f_def)
  have bex: "list_ex (\<lambda>item. fst item = fst (best_sentiment_model f)
              \<and> sentiment_f1_score (snd item) = Some (snd (best_sentiment_model f))) models"
    using sentiment_pairs_mem[OF b(2)] by (simp add: f_def list_ex_iff)
  have bmax: "list_all (\<lambda>item. case sentiment_f1_score (snd item) of
                None \<Rightarrow> True | Some w \<Rightarrow> w \<le> snd (best_sentiment_model f)) models"
    unfolding list_all_iff
  proof
    fix it assume it: "it \<in> set models"
    show "case sentiment_f1_score (snd it) of None \<Rightarrow> True
            | Some w \<Rightarrow> w \<le> snd (best_sentiment_model f)"
    proof (cases "sentiment_f1_score (snd it)")
      case None
      then show ?thesis by simp
    next
      case (Some w)
      with nz it have "w \<noteq> 0" by auto
      with it Some have "(fst it, w) \<in> set (sentiment_pairs models)"
        by (intro sentiment_pairs_intro)
      with b(3) have "w \<le> snd b" by fastforce
      with Some show ?thesis by (simp add: f_def)
    qed
  qed
  have c1: "models_with_sentiment_data f = spec_count_sentiment_data models"
    by (simp add: f_def count_sentiment_present[OF nz])
  have c2: "models_under_4gb f = length (filter (\<lambda>item. file_size_gb (snd item) < 4.0) models)"
    by (simp add: f_def count_under_4gb_def filter_map o_def)
  have c3: "low_resource_count f = length (filter (\<lambda>item. low_resource_compatible (snd item)) models)"
    by (simp add: f_def count_low_resource_def filter_map o_def)
  have sex: "list_ex (\<lambda>item. smallest_model f = (fst item, file_size_gb (snd item))) models"
    using m(2) by (auto simp: f_def list_ex_iff size_pairs_def)
  have smin: "list_all (\<lambda>item. snd (smallest_model f) \<le> file_size_gb (snd item)) models"
    using m(3) by (simp add: f_def list_all_iff size_pairs_def)
  from ret scan bex bmax c1 c2 c3 sex smin show ?thesis by blast
qed

lemma summary_matches_scan_embedded:
  "list_ex (\<lambda>item. sentiment_f1_score (snd item) \<noteq> None) webllm_models
   \<and> list_all (\<lambda>item. sentiment_f1_score (snd item) \<noteq> Some 0) webllm_models
   \<and> (\<exists>f. analysis_findings webllm_models = Inr f
        \<and> spec_scan_max None webllm_models = Some (best_sentiment_model f)
        \<and> models_with_sentiment_data f = spec_count_sentiment_data webllm_models)"
proof -
  have p: "list_ex (\<lambda>item. sentiment_f1_score (snd item) \<noteq> None) webllm_models"
    by (simp add: catalog_defs del: not_None_eq)
  have n: "list_all (\<lambda>item. sentiment_f1_score (snd item) \<noteq> Some 0) webllm_models"
    by (simp add: catalog_defs)
  from summary_matches_scan [OF p n] p n show ?thesis by blast
qed

text \<open>
  Claim C6 says that, for every catalog with at least one present
  \<open>sentiment_f1_score\<close>, the best-sentiment entry is the one a linear scan over the present
  fields keeps, and that the count of models with sentiment data is the number of
  records with a present score. The source filters on the truth value of the field
  (lines 432 and 436), not on \<^verbatim>\<open>is not None\<close> as line 228 does, so it departs from this at a
  present score of 0.0. On the catalog whose only record has the score 0.0 the scan keeps
  that record, and the source raises \<^verbatim>\<open>ValueError\<close>; next to a record with a non-zero
  score, two records have a present score and the source counts one.
\<close>

theorem zero_score_breaks_scan:
  "sentiment_f1_score (tinyllama\<lparr>sentiment_f1_score := Some 0\<rparr>) = Some 0
   \<and> spec_scan_max None
        [(''TinyLlama-1.1B-Chat-v1.0-q4f32_1'', tinyllama\<lparr>sentiment_f1_score := Some 0\<rparr>)]
       = Some (''TinyLlama-1.1B-Chat-v1.0-q4f32_1'', 0)
   \<and> analysis_findings
        [(''TinyLlama-1.1B-Chat-v1.0-q4f32_1'', tinyllama\<lparr>sentiment_f1_score := Some 0\<rparr>)]
       = Inl ValueError_max_empty
   \<and> spec_count_sentiment_data
        [(''Qwen2.5-1.5B-Instruct-q4f32_1'', qwen_1_5b),
         (''TinyLlama-1.1B-Chat-v1.0-q4f32_1'', tinyllama\<lparr>sentiment_f1_score := Some 0\<rparr>)] = 2
   \<and> count_sentiment_data
        [(''Qwen2.5-1.5B-Instruct-q4f32_1'', qwen_1_5b),
         (''TinyLlama-1.1B-Chat-v1.0-q4f32_1'', tinyllama\<lparr>sentiment_f1_score := Some 0\<rparr>)] = 1"
  by (simp add: analysis_findings_def spec_count_sentiment_data_def count_sentiment_data_def
      truthy_def qwen_1_5b_def tinyllama_def del: not_None_eq)

text \<open>
  Away from the score 0.0 ties go to the earliest record. When the maximal present
  \<open>sentiment_f1_score\<close> of a catalog is not 0.0, the summary returns findings, and its
  best-sentiment entry is the earliest record in catalog order that has this score,
  whether or not later records share it. In the embedded catalog
  \<^verbatim>\<open>gemma-2-2b-it-q4f32_1\<close> and \<^verbatim>\<open>gemma-2-2b-it-q4f32_1-1k\<close> have the same score, and the
  entry is \<^verbatim>\<open>gemma-2-2b-it-q4f32_1\<close> with 62.62.
\<close>

lemma best_sentiment_earliest:
  "(sentiment_f1_score d = Some v \<and> v \<noteq> 0
      \<and> list_all (\<lambda>item. sentiment_f1_score (snd item) \<noteq> Some v) pre
      \<and> list_all (\<lambda>item. case sentiment_f1_score (snd item) of
                None \<Rightarrow> True | Some w \<Rightarrow> w \<le> v) (pre @ post)
     \<longrightarrow> (\<exists>f. analysis_findings (pre @ (n, d) # post) = Inr f
            \<and> best_sentiment_model f = (n, v)))
   \<and> sentiment_f1_score gemma_2b = sentiment_f1_score gemma_2b_1k
   \<and> (\<exists>f. generate_analysis_summary = Inr f
         \<and> best_sentiment_model f = (''gemma-2-2b-it-q4f32_1'', 62.62))"
proof (intro conjI impI)
  assume h: "sentiment_f1_score d = Some v \<and> v \<noteq> 0
      \<and> list_all (\<lambda>item. sentiment_f1_score (snd item) \<noteq> Some v) pre
      \<and> list_all (\<lambda>item. case sentiment_f1_score (snd item) of
                None \<Rightarrow> True | Some w \<Rightarrow> w \<le> v) (pre @ post)"
  then have d: "sentiment_f1_score d = Some v" "v \<noteq> 0" by simp_all
  have le: "\<forall>item \<in> set (pre @ post). \<forall>w. sentiment_f1_score (snd item) = Some w \<longrightarrow> w \<le> v"
    using h by (auto simp: list_all_iff split: option.splits)
  have ne: "\<forall>item \<in> set pre. sentiment_f1_score (snd item) \<noteq> Some v"
    using h by (simp add: list_all_iff)
  have "\<forall>item \<in> set pre. \<forall>w. sentiment_f1_score (snd item) = Some w \<longrightarrow> w < v"
  proof (intro ballI allI impI)
    fix item w assume a: "item \<in> set pre" "sentiment_f1_score (snd item) = Some w"
    with le have "w \<le> v" by auto
    moreover from a ne have "w \<noteq> v" by auto
    ultimately show "w < v" by simp
  qed
  moreover have "\<forall>item \<in> set post. \<forall>w. sentiment_f1_score (snd item) = Some w \<longrightarrow> w \<le> v"
    using le by auto
  ultimately show "\<exists>f. analysis_findings (pre @ (n, d) # post) = Inr f
            \<and> best_sentiment_model f = (n, v)"
    using d by (intro best_sentiment_first)
next
  show "sentiment_f1_score gemma_2b = sentiment_f1_score gemma_2b_1k"
    by (simp add: gemma_2b_def gemma_2b_1k_def)
next
  show "\<exists>f. generate_analysis_summary = Inr f
         \<and> best_sentiment_model f = (''gemma-2-2b-it-q4f32_1'', 62.62)"
    by (simp add: embedded_findings)
qed

lemma best_sentiment_earliest_tie:
  "sentiment_f1_score gemma_2b = Some 62.62 \<and> (62.62::real) \<noteq> 0
   \<and> list_all (\<lambda>item. sentiment_f1_score (snd item) \<noteq> Some 62.62)
        [(''Qwen2.5-1.5B-Instruct-q4f32_1'', qwen_1_5b)]
   \<and> list_all (\<lambda>item. case sentiment_f1_score (snd item) of
                None \<Rightarrow> True | Some w \<Rightarrow> w \<le> 62.62)
        ([(''Qwen2.5-1.5B-Instruct-q4f32_1'', qwen_1_5b)]
         @ [(''gemma-2-2b-it-q4f32_1-1k'', gemma_2b_1k)])
   \<and> (\<exists>f. analysis_findings
             ([(''Qwen2.5-1.5B-Instruct-q4f32_1'', qwen_1_5b)]
              @ (''gemma-2-2b-it-q4f32_1'', gemma_2b)
              # [(''gemma-2-2b-it-q4f32_1-1k'', gemma_2b_1k)]) = Inr f
          \<and> best_sentiment_model f = (''gemma-2-2b-it-q4f32_1'', 62.62))"
  using best_sentiment_earliest [THEN conjunct1, of gemma_2b "62.62"
      "[(''Qwen2.5-1.5B-Instruct-q4f32_1'', qwen_1_5b)]"
      "[(''gemma-2-2b-it-q4f32_1-1k'', gemma_2b_1k)]" "''gemma-2-2b-it-q4f32_1''"]
  by (simp add: gemma_2b_def gemma_2b_1k_def qwen_1_5b_def)

text \<open>
  Claim C9 says that, when two or more records share the maximal present
  \<open>sentiment_f1_score\<close>, the best-sentiment entry is the earliest of them. The source
  filters on the truth value of the field (line 436), not on \<^verbatim>\<open>is not None\<close> as line 228
  does, so it departs from this when the shared maximal score is 0.0: on the catalog of
  two records that both score 0.0 the earliest record is the first one, and the source
  raises \<^verbatim>\<open>ValueError\<close> and has no best-sentiment entry.
\<close>

theorem zero_tie_raises:
  "sentiment_f1_score (gemma_2b\<lparr>sentiment_f1_score := Some 0\<rparr>) = Some 0
   \<and> sentiment_f1_score (gemma_2b_1k\<lparr>sentiment_f1_score := Some 0\<rparr>) = Some 0
   \<and> analysis_findings
        [(''gemma-2-2b-it-q4f32_1'', gemma_2b\<lparr>sentiment_f1_score := Some 0\<rparr>),
         (''gemma-2-2b-it-q4f32_1-1k'', gemma_2b_1k\<lparr>sentiment_f1_score := Some 0\<rparr>)]
       = Inl ValueError_max_empty"
  by (simp add: analysis_findings_def gemma_2b_def gemma_2b_1k_def)

end
